theory Spec2Isabelle
  imports Main "HOL-Library.Word"
begin

section \<open>Python values held by a Card\<close>

text \<open>
  The document stored in \<open>scryfall_response\<close> is whatever the JSON collaborator
  returned: \<open>None\<close>, a bool, an int, a float, a str, a list or a dict with string keys.
  A float is kept as the bit pattern of its IEEE-754 double, which is all that its truth
  value needs. A dict is an association list read with \<open>map_of\<close>; a str is the list of
  its characters.
\<close>

datatype pyval =
    PyNone
  | PyBool bool
  | PyInt int
  | PyFloat "64 word"
  | PyStr string
  | PyList "pyval list"
  | PyDict "(string \<times> pyval) list"

text \<open>
  Python's truth value of an object, as \<open>if x:\<close> and \<open>x and y\<close> test it: \<open>None\<close>,
  \<open>False\<close>, zero (for a float: plus or minus zero, every bit but the sign clear) and an
  empty str, list or dict are false; everything else is true.
\<close>

fun truthy :: "pyval \<Rightarrow> bool" where
  "truthy PyNone = False"
| "truthy (PyBool b) = b"
| "truthy (PyInt i) = (i \<noteq> 0)"
| "truthy (PyFloat w) = (take_bit 63 w \<noteq> 0)"
| "truthy (PyStr s) = (s \<noteq> [])"
| "truthy (PyList xs) = (xs \<noteq> [])"
| "truthy (PyDict kvs) = (kvs \<noteq> [])"

fun py_type_name :: "pyval \<Rightarrow> string" where
  "py_type_name PyNone = ''NoneType''"
| "py_type_name (PyBool b) = ''bool''"
| "py_type_name (PyInt i) = ''int''"
| "py_type_name (PyFloat w) = ''float''"
| "py_type_name (PyStr s) = ''str''"
| "py_type_name (PyList xs) = ''list''"
| "py_type_name (PyDict kvs) = ''dict''"

text \<open>
  Exceptions, each with the text \<open>str(e)\<close> gives. \<open>except Exception\<close> catches the
  first two; \<open>NonException\<close> stands for the classes that derive from \<open>BaseException\<close>
  only (\<open>KeyboardInterrupt\<close>, \<open>SystemExit\<close>, \<open>GeneratorExit\<close>).
\<close>

datatype exn =
    AttributeError string
  | OtherException string
  | NonException string

fun isinstance_Exception :: "exn \<Rightarrow> bool" where
  "isinstance_Exception (AttributeError m) = True"
| "isinstance_Exception (OtherException m) = True"
| "isinstance_Exception (NonException m) = False"

fun str_exn :: "exn \<Rightarrow> string" where
  "str_exn (AttributeError m) = m"
| "str_exn (OtherException m) = m"
| "str_exn (NonException m) = m"

definition no_attribute :: "pyval \<Rightarrow> string \<Rightarrow> exn" where
  "no_attribute obj attr =
     AttributeError ([CHR 0x27] @ py_type_name obj @ [CHR 0x27] @ '' object has no attribute ''
                     @ [CHR 0x27] @ attr @ [CHR 0x27])"

text \<open>
  The method call \<open>obj.get(k)\<close>: \<open>dict.get\<close> on a dict, with \<open>None\<close> for a key that
  is not there; \<open>AttributeError\<close> on every other JSON value, none of which has a
  \<open>get\<close> attribute.
\<close>

fun py_get :: "pyval \<Rightarrow> string \<Rightarrow> exn + pyval" where
  "py_get (PyDict kvs) k = Inr (case map_of kvs k of None \<Rightarrow> PyNone | Some v \<Rightarrow> v)"
| "py_get obj k = Inl (no_attribute obj ''get'')"


section \<open>The world around a Card\<close>

text \<open>
  \<open>fetch_json\<close> is not part of \<open>Card.py\<close>; it is a parameter here: a function of the
  URL and of the state \<open>'w\<close> of everything outside the program, which returns a value or
  raises, and may change that state (so that a second call can answer differently).
  The trace records, in order, each call of the collaborator and each line printed.
\<close>

type_synonym 'w fetcher = "string \<Rightarrow> 'w \<Rightarrow> (exn + pyval) \<times> 'w"

datatype event = FetchJson string | Print string

record 'w env =
  world :: 'w
  trace :: "event list"

definition call_fetch_json :: "'w fetcher \<Rightarrow> string \<Rightarrow> 'w env \<Rightarrow> (exn + pyval) \<times> 'w env" where
  "call_fetch_json fetch_json url e =
     (case fetch_json url (world e) of
        (r, w') \<Rightarrow> (r, e\<lparr>world := w', trace := trace e @ [FetchJson url]\<rparr>))"

definition print :: "string \<Rightarrow> 'w env \<Rightarrow> 'w env" where
  "print line e = e\<lparr>trace := trace e @ [Print line]\<rparr>"

fun fetch_urls :: "event list \<Rightarrow> string list" where
  "fetch_urls [] = []"
| "fetch_urls (FetchJson url # evs) = url # fetch_urls evs"
| "fetch_urls (Print line # evs) = fetch_urls evs"


section \<open>The class Card\<close>

record card =
  name :: string
  scryfall_response :: pyval

text \<open>\<open>get_base_scryfall_url\<close>: an f-string with one field, a str formatted as it is.\<close>

definition format_str :: "string \<Rightarrow> string" where
  "format_str s = s"

definition get_base_scryfall_url :: "string \<Rightarrow> string" where
  "get_base_scryfall_url n = concat [''https://api.scryfall.com/cards/named?exact='', format_str n]"

text \<open>
  \<open>set_base_scryfall_response\<close>: one call of the collaborator. A value is stored; an
  exception that is an \<open>Exception\<close> is printed and dropped, with the attribute left as it
  was; any other exception leaves the method. The result is the outcome, the object and
  the world after the call.
\<close>

definition set_base_scryfall_response ::
  "'w fetcher \<Rightarrow> card \<Rightarrow> 'w env \<Rightarrow> (exn + unit) \<times> card \<times> 'w env" where
  "set_base_scryfall_response fetch_json self e =
     (let url_to_hit = get_base_scryfall_url (name self) in
      case call_fetch_json fetch_json url_to_hit e of
        (Inr v, e') \<Rightarrow> (Inr (), self\<lparr>scryfall_response := v\<rparr>, e')
      | (Inl ex, e') \<Rightarrow>
          if isinstance_Exception ex
          then (Inr (), self,
                print (''An error occurred while fetching Scryfall response: '' @ str_exn ex) e')
          else (Inl ex, self, e'))"

text \<open>
  \<open>__init__\<close>: the two assignments, then the fetch. The caller gets the object, or the
  exception that left \<open>set_base_scryfall_response\<close>.
\<close>

definition Card_init :: "'w fetcher \<Rightarrow> string \<Rightarrow> 'w env \<Rightarrow> (exn + card) \<times> 'w env" where
  "Card_init fetch_json n e =
     (let self = \<lparr>name = n, scryfall_response = PyNone\<rparr> in
      case set_base_scryfall_response fetch_json self e of
        (Inr u, self', e') \<Rightarrow> (Inr self', e')
      | (Inl ex, self', e') \<Rightarrow> (Inl ex, e'))"

text \<open>\<open>__repr__\<close>.\<close>

definition Card_repr :: "card \<Rightarrow> 'w env \<Rightarrow> (exn + pyval) \<times> card \<times> 'w env" where
  "Card_repr self e = (Inr (PyStr (concat [''Card(name='', format_str (name self), '')''])), self, e)"

text \<open>
  \<open>get_value_from_base_scryfall_response\<close>, with \<open>sub_key\<close> an \<open>Optional[str]\<close>:
  \<open>None\<close> and the empty str are false in \<open>sub_key and data\<close>.
\<close>

definition get_value_from_base_scryfall_response ::
  "card \<Rightarrow> string \<Rightarrow> string option \<Rightarrow> 'w env \<Rightarrow> (exn + pyval) \<times> card \<times> 'w env" where
  "get_value_from_base_scryfall_response self key sub_key e =
     (if truthy (scryfall_response self) then
        (case py_get (scryfall_response self) key of
           Inl ex \<Rightarrow> (Inl ex, self, e)
         | Inr data \<Rightarrow>
             (case sub_key of
                None \<Rightarrow> (Inr data, self, e)
              | Some sk \<Rightarrow>
                  if sk \<noteq> [] \<and> truthy data then (py_get data sk, self, e)
                  else (Inr data, self, e)))
      else (Inr PyNone, self, e))"

definition dollar_min_price :: "card \<Rightarrow> 'w env \<Rightarrow> (exn + pyval) \<times> card \<times> 'w env" where
  "dollar_min_price self e = get_value_from_base_scryfall_response self ''prices'' (Some ''usd'') e"

definition euro_min_price :: "card \<Rightarrow> 'w env \<Rightarrow> (exn + pyval) \<times> card \<times> 'w env" where
  "euro_min_price self e = get_value_from_base_scryfall_response self ''prices'' (Some ''eur'') e"

definition online_min_price :: "card \<Rightarrow> 'w env \<Rightarrow> (exn + pyval) \<times> card \<times> 'w env" where
  "online_min_price self e = get_value_from_base_scryfall_response self ''prices'' (Some ''tix'') e"


section \<open>The life of a Card\<close>

text \<open>
  The operations of the class that only read a Card: the field lookup, the three price
  properties and \<open>repr\<close>.
\<close>

datatype card_read =
    GetValue string "string option"
  | DollarMinPrice
  | EuroMinPrice
  | OnlineMinPrice
  | Repr

definition run_read :: "card_read \<Rightarrow> card \<Rightarrow> 'w env \<Rightarrow> (exn + pyval) \<times> card \<times> 'w env" where
  "run_read op self e =
     (case op of
        GetValue key sub_key \<Rightarrow> get_value_from_base_scryfall_response self key sub_key e
      | DollarMinPrice \<Rightarrow> dollar_min_price self e
      | EuroMinPrice \<Rightarrow> euro_min_price self e
      | OnlineMinPrice \<Rightarrow> online_min_price self e
      | Repr \<Rightarrow> Card_repr self e)"

text \<open>
  Everything a caller can call on a constructed Card: the reading operations, the static
  method \<open>get_base_scryfall_url\<close>, and \<open>set_base_scryfall_response\<close>, which is public
  and fetches again. A method without a \<open>return\<close> gives \<open>None\<close>.
\<close>

datatype card_op =
    Read card_read
  | GetBaseScryfallUrl string
  | SetBaseScryfallResponse

definition run_op ::
  "'w fetcher \<Rightarrow> card_op \<Rightarrow> card \<Rightarrow> 'w env \<Rightarrow> (exn + pyval) \<times> card \<times> 'w env" where
  "run_op fetch_json op self e =
     (case op of
        Read r \<Rightarrow> run_read r self e
      | GetBaseScryfallUrl n \<Rightarrow> (Inr (PyStr (get_base_scryfall_url n)), self, e)
      | SetBaseScryfallResponse \<Rightarrow>
          (case set_base_scryfall_response fetch_json self e of
             (Inr u, self', e') \<Rightarrow> (Inr PyNone, self', e')
           | (Inl ex, self', e') \<Rightarrow> (Inl ex, self', e')))"

text \<open>
  The states of a Card made by \<open>Card(n)\<close> in the world \<open>e0\<close>, with the calls made on it
  since, in order: the state in which \<open>__init__\<close> returns it, the state after any call
  of a method of the class on it (whether the call returned or raised), and the same Card
  while the rest of the program changes the world without writing to the Card.
\<close>

inductive reachable ::
  "'w fetcher \<Rightarrow> string \<Rightarrow> 'w env \<Rightarrow> card_op list \<Rightarrow> card \<Rightarrow> 'w env \<Rightarrow> bool"
  for fetch_json :: "'w fetcher" and n :: string and e0 :: "'w env" where
  constructed: "Card_init fetch_json n e0 = (Inr c, e) \<Longrightarrow> reachable fetch_json n e0 [] c e"
| operated: "reachable fetch_json n e0 ops c e \<Longrightarrow> run_op fetch_json op c e = (r, c', e')
             \<Longrightarrow> reachable fetch_json n e0 (ops @ [op]) c' e'"
| elsewhere: "reachable fetch_json n e0 ops c e \<Longrightarrow> reachable fetch_json n e0 ops c e'"

text \<open>
  A collaborator for concrete runs: the world is the list of the answers still to come,
  and each call takes the next one, whatever the URL.
\<close>

definition scripted_fetch :: "((exn + pyval) list) fetcher" where
  "scripted_fetch url w =
     (case w of
        [] \<Rightarrow> (Inl (OtherException ''no answer left''), [])
      | r # rs \<Rightarrow> (r, rs))"

text \<open>
  A collaborator that keeps count itself: beside the state of the collaborator it wraps,
  its state holds the URLs it has been called with, one entry for each call.
\<close>

definition recording :: "'w fetcher \<Rightarrow> ('w \<times> string list) fetcher" where
  "recording fetch_json url s =
     (case s of
        (w, seen) \<Rightarrow> (case fetch_json url w of (r, w') \<Rightarrow> (r, (w', seen @ [url]))))"


section \<open>Basic facts\<close>

lemma get_base_scryfall_url_eq:
  "get_base_scryfall_url n = ''https://api.scryfall.com/cards/named?exact='' @ n"
  by (simp add: get_base_scryfall_url_def format_str_def)

lemma get_value_frame:
  "snd (get_value_from_base_scryfall_response self key sub_key e) = (self, e)"
  by (simp add: get_value_from_base_scryfall_response_def split: sum.split option.split)

lemma run_read_frame: "snd (run_read op self e) = (self, e)"
  by (cases op)
     (simp_all add: run_read_def dollar_min_price_def euro_min_price_def online_min_price_def
        Card_repr_def get_value_frame)

lemma set_response_value:
  assumes "fetch_json (get_base_scryfall_url (name self)) (world e) = (Inr v, w')"
  shows "set_base_scryfall_response fetch_json self e =
           (Inr (), self\<lparr>scryfall_response := v\<rparr>,
            e\<lparr>world := w', trace := trace e @ [FetchJson (get_base_scryfall_url (name self))]\<rparr>)"
  using assms by (simp add: set_base_scryfall_response_def call_fetch_json_def)

lemma set_response_caught:
  assumes "fetch_json (get_base_scryfall_url (name self)) (world e) = (Inl ex, w')"
    and "isinstance_Exception ex"
  shows "set_base_scryfall_response fetch_json self e =
           (Inr (), self,
            e\<lparr>world := w',
              trace := trace e @ [FetchJson (get_base_scryfall_url (name self)),
                Print (''An error occurred while fetching Scryfall response: '' @ str_exn ex)]\<rparr>)"
  using assms by (simp add: set_base_scryfall_response_def call_fetch_json_def print_def)

lemma set_response_propagated:
  assumes "fetch_json (get_base_scryfall_url (name self)) (world e) = (Inl ex, w')"
    and "\<not> isinstance_Exception ex"
  shows "set_base_scryfall_response fetch_json self e =
           (Inl ex, self,
            e\<lparr>world := w', trace := trace e @ [FetchJson (get_base_scryfall_url (name self))]\<rparr>)"
  using assms by (simp add: set_base_scryfall_response_def call_fetch_json_def)

lemma Card_init_value:
  assumes "fetch_json (get_base_scryfall_url n) (world e) = (Inr v, w')"
  shows "Card_init fetch_json n e =
           (Inr \<lparr>name = n, scryfall_response = v\<rparr>,
            e\<lparr>world := w', trace := trace e @ [FetchJson (get_base_scryfall_url n)]\<rparr>)"
  using assms by (simp add: Card_init_def set_response_value)

lemma Card_init_caught:
  assumes "fetch_json (get_base_scryfall_url n) (world e) = (Inl ex, w')"
    and "isinstance_Exception ex"
  shows "Card_init fetch_json n e =
           (Inr \<lparr>name = n, scryfall_response = PyNone\<rparr>,
            e\<lparr>world := w',
              trace := trace e @ [FetchJson (get_base_scryfall_url n),
                Print (''An error occurred while fetching Scryfall response: '' @ str_exn ex)]\<rparr>)"
  using assms by (simp add: Card_init_def set_response_caught)

lemma Card_init_propagated:
  assumes "fetch_json (get_base_scryfall_url n) (world e) = (Inl ex, w')"
    and "\<not> isinstance_Exception ex"
  shows "Card_init fetch_json n e =
           (Inl ex, e\<lparr>world := w', trace := trace e @ [FetchJson (get_base_scryfall_url n)]\<rparr>)"
  using assms by (simp add: Card_init_def set_response_propagated)

lemma get_value_depends_on_document:
  assumes "scryfall_response c = scryfall_response c'"
  shows "fst (get_value_from_base_scryfall_response c key sub_key e)
           = fst (get_value_from_base_scryfall_response c' key sub_key e')"
  using assms
  by (simp add: get_value_from_base_scryfall_response_def split: sum.split option.split)

lemma fetch_urls_append: "fetch_urls (xs @ ys) = fetch_urls xs @ fetch_urls ys"
  by (induction xs rule: fetch_urls.induct) simp_all

lemma Card_init_world:
  "world (snd (Card_init fetch_json n e)) = snd (fetch_json (get_base_scryfall_url n) (world e))"
proof -
  obtain r w' where call: "fetch_json (get_base_scryfall_url n) (world e) = (r, w')"
    by (cases "fetch_json (get_base_scryfall_url n) (world e)")
  show ?thesis
  proof (cases r)
    case (Inr v)
    with call show ?thesis
      by (simp add: Card_init_value)
  next
    case (Inl ex)
    with call show ?thesis
      by (cases "isinstance_Exception ex") (simp_all add: Card_init_caught Card_init_propagated)
  qed
qed

lemma Card_init_result:
  "fst (Card_init fetch_json n e) =
     (case fst (fetch_json (get_base_scryfall_url n) (world e)) of
        Inr v \<Rightarrow> Inr \<lparr>name = n, scryfall_response = v\<rparr>
      | Inl ex \<Rightarrow>
          if isinstance_Exception ex then Inr \<lparr>name = n, scryfall_response = PyNone\<rparr>
          else Inl ex)"
proof -
  obtain r w' where call: "fetch_json (get_base_scryfall_url n) (world e) = (r, w')"
    by (cases "fetch_json (get_base_scryfall_url n) (world e)")
  show ?thesis
  proof (cases r)
    case (Inr v)
    with call show ?thesis
      by (simp add: Card_init_value)
  next
    case (Inl ex)
    with call show ?thesis
      by (cases "isinstance_Exception ex") (simp_all add: Card_init_caught Card_init_propagated)
  qed
qed

lemma Card_init_fetch_urls:
  "fetch_urls (trace (snd (Card_init fetch_json n e)))
     = fetch_urls (trace e) @ [get_base_scryfall_url n]"
proof -
  obtain r w' where call: "fetch_json (get_base_scryfall_url n) (world e) = (r, w')"
    by (cases "fetch_json (get_base_scryfall_url n) (world e)")
  show ?thesis
  proof (cases r)
    case (Inr v)
    with call show ?thesis
      by (simp add: Card_init_value fetch_urls_append)
  next
    case (Inl ex)
    with call show ?thesis
      by (cases "isinstance_Exception ex")
         (simp_all add: Card_init_caught Card_init_propagated fetch_urls_append)
  qed
qed

lemma recording_seen:
  "snd (snd (recording fetch_json url (w, seen))) = seen @ [url]"
  by (simp add: recording_def split: prod.split)

lemma refetch_card:
  "fst (snd (run_op fetch_json SetBaseScryfallResponse c e)) =
     (case fst (fetch_json (get_base_scryfall_url (name c)) (world e)) of
        Inr d \<Rightarrow> c\<lparr>scryfall_response := d\<rparr>
      | Inl ex \<Rightarrow> c)"
proof -
  obtain r w' where call: "fetch_json (get_base_scryfall_url (name c)) (world e) = (r, w')"
    by (cases "fetch_json (get_base_scryfall_url (name c)) (world e)")
  show ?thesis
  proof (cases r)
    case (Inr v)
    with call show ?thesis
      by (simp add: run_op_def set_response_value)
  next
    case (Inl ex)
    with call show ?thesis
      by (cases "isinstance_Exception ex")
         (simp_all add: run_op_def set_response_caught set_response_propagated)
  qed
qed

lemma run_op_keeps_document:
  assumes "op \<noteq> SetBaseScryfallResponse"
  shows "fst (snd (run_op fetch_json op c e)) = c"
  using assms by (cases op) (simp_all add: run_op_def run_read_frame)


section \<open>Field lookup\<close>

text \<open>
  C1, as stated, at an empty \<open>sub_key\<close>. The document is \<open>{"a": {"": "x"}}\<close> and the
  call is \<open>get_value_from_base_scryfall_response("a", "")\<close>: a sub-key is given, the
  value at \<open>a\<close> is a mapping and contains it, yet the result is the whole mapping at
  \<open>a\<close> and not \<open>"x"\<close>, because the empty str is false in \<open>sub_key and data\<close>.
\<close>

theorem get_value_empty_sub_key_counterexample:
  "map_of [(''a'', PyDict [('''', PyStr ''x'')])] ''a'' = Some (PyDict [('''', PyStr ''x'')])
   \<and> map_of [('''', PyStr ''x'')] '''' = Some (PyStr ''x'')
   \<and> fst (get_value_from_base_scryfall_response
             \<lparr>name = ''n'', scryfall_response = PyDict [(''a'', PyDict [('''', PyStr ''x'')])]\<rparr>
             ''a'' (Some '''') \<lparr>world = (), trace = []\<rparr>)
       = Inr (PyDict [('''', PyStr ''x'')])
   \<and> fst (get_value_from_base_scryfall_response
             \<lparr>name = ''n'', scryfall_response = PyDict [(''a'', PyDict [('''', PyStr ''x'')])]\<rparr>
             ''a'' (Some '''') \<lparr>world = (), trace = []\<rparr>)
       \<noteq> Inr (PyStr ''x'')"
  by (simp add: get_value_from_base_scryfall_response_def)

text \<open>
  C1, amended. For every document and key:
  with no sub-key, or with the empty str as sub-key, the value at the key of a document
  that has it is returned; with a non-empty sub-key, and the value at the key a mapping
  that has the sub-key, the value at the sub-key is returned; \<open>None\<close> is returned when the
  document is \<open>None\<close>, when the key is missing (an empty document included), and when
  the value at the key is \<open>None\<close>; and a sub-key missing from a mapping at the key
  raises nothing: the result is \<open>None\<close>, or the mapping itself when it is empty or the
  sub-key is the empty str.
\<close>

theorem get_value_lookup:
  "(map_of kvs key = Some v \<longrightarrow>
      fst (get_value_from_base_scryfall_response
             \<lparr>name = n, scryfall_response = PyDict kvs\<rparr> key None e) = Inr v)
   \<and> (map_of kvs key = Some (PyDict sub) \<and> map_of sub sk = Some leaf \<and> sk \<noteq> [] \<longrightarrow>
      fst (get_value_from_base_scryfall_response
             \<lparr>name = n, scryfall_response = PyDict kvs\<rparr> key (Some sk) e) = Inr leaf)
   \<and> (map_of kvs key = Some v \<longrightarrow>
      fst (get_value_from_base_scryfall_response
             \<lparr>name = n, scryfall_response = PyDict kvs\<rparr> key (Some []) e) = Inr v)
   \<and> fst (get_value_from_base_scryfall_response
             \<lparr>name = n, scryfall_response = PyNone\<rparr> key sub_key e) = Inr PyNone
   \<and> (map_of kvs key = None \<longrightarrow>
      fst (get_value_from_base_scryfall_response
             \<lparr>name = n, scryfall_response = PyDict kvs\<rparr> key sub_key e) = Inr PyNone)
   \<and> (map_of kvs key = Some PyNone \<longrightarrow>
      fst (get_value_from_base_scryfall_response
             \<lparr>name = n, scryfall_response = PyDict kvs\<rparr> key sub_key e) = Inr PyNone)
   \<and> (map_of kvs key = Some (PyDict sub) \<and> map_of sub sk = None \<longrightarrow>
      fst (get_value_from_base_scryfall_response
             \<lparr>name = n, scryfall_response = PyDict kvs\<rparr> key (Some sk) e)
        = Inr (if sk = [] \<or> sub = [] then PyDict sub else PyNone))"
proof -
  have present: "kvs \<noteq> []" if "map_of kvs key = Some x" for x
    using that by auto
  have sub_present: "sub \<noteq> []" if "map_of sub sk = Some x" for x
    using that by auto
  show ?thesis
    by (auto simp: get_value_from_base_scryfall_response_def present sub_present
             split: option.split)
qed

theorem get_value_lookup_witness:
  "map_of [(''prices'', PyDict [(''usd'', PyStr ''1.23'')]), (''lang'', PyNone)] ''prices''
     = Some (PyDict [(''usd'', PyStr ''1.23'')])
   \<and> fst (get_value_from_base_scryfall_response
        \<lparr>name = ''Black Lotus'',
         scryfall_response = PyDict [(''prices'', PyDict [(''usd'', PyStr ''1.23'')]), (''lang'', PyNone)]\<rparr>
        ''prices'' None \<lparr>world = (), trace = []\<rparr>) = Inr (PyDict [(''usd'', PyStr ''1.23'')])
   \<and> fst (get_value_from_base_scryfall_response
        \<lparr>name = ''Black Lotus'',
         scryfall_response = PyDict [(''prices'', PyDict [(''usd'', PyStr ''1.23'')]), (''lang'', PyNone)]\<rparr>
        ''prices'' (Some ''usd'') \<lparr>world = (), trace = []\<rparr>) = Inr (PyStr ''1.23'')
   \<and> fst (get_value_from_base_scryfall_response
        \<lparr>name = ''Black Lotus'',
         scryfall_response = PyDict [(''prices'', PyDict [(''usd'', PyStr ''1.23'')]), (''lang'', PyNone)]\<rparr>
        ''prices'' (Some '''') \<lparr>world = (), trace = []\<rparr>) = Inr (PyDict [(''usd'', PyStr ''1.23'')])
   \<and> fst (get_value_from_base_scryfall_response
        \<lparr>name = ''Black Lotus'', scryfall_response = PyNone\<rparr>
        ''prices'' (Some ''usd'') \<lparr>world = (), trace = []\<rparr>) = Inr PyNone
   \<and> fst (get_value_from_base_scryfall_response
        \<lparr>name = ''Black Lotus'',
         scryfall_response = PyDict [(''prices'', PyDict [(''usd'', PyStr ''1.23'')]), (''lang'', PyNone)]\<rparr>
        ''nonexistent_key'' None \<lparr>world = (), trace = []\<rparr>) = Inr PyNone
   \<and> fst (get_value_from_base_scryfall_response
        \<lparr>name = ''Black Lotus'',
         scryfall_response = PyDict [(''prices'', PyDict [(''usd'', PyStr ''1.23'')]), (''lang'', PyNone)]\<rparr>
        ''lang'' (Some ''usd'') \<lparr>world = (), trace = []\<rparr>) = Inr PyNone
   \<and> fst (get_value_from_base_scryfall_response
        \<lparr>name = ''Black Lotus'',
         scryfall_response = PyDict [(''prices'', PyDict [(''usd'', PyStr ''1.23'')]), (''lang'', PyNone)]\<rparr>
        ''prices'' (Some ''eur'') \<lparr>world = (), trace = []\<rparr>) = Inr PyNone"
  using
    get_value_lookup [where kvs = "[(''prices'', PyDict [(''usd'', PyStr ''1.23'')]), (''lang'', PyNone)]"
      and key = "''prices''" and v = "PyDict [(''usd'', PyStr ''1.23'')]"
      and sub = "[(''usd'', PyStr ''1.23'')]" and sk = "''usd''" and leaf = "PyStr ''1.23''"
      and n = "''Black Lotus''" and e = "\<lparr>world = (), trace = []\<rparr>"
      and sub_key = "Some ''usd''"]
    get_value_lookup [where kvs = "[(''prices'', PyDict [(''usd'', PyStr ''1.23'')]), (''lang'', PyNone)]"
      and key = "''nonexistent_key''"
      and n = "''Black Lotus''" and e = "\<lparr>world = (), trace = []\<rparr>"
      and sub_key = "None"]
    get_value_lookup [where kvs = "[(''prices'', PyDict [(''usd'', PyStr ''1.23'')]), (''lang'', PyNone)]"
      and key = "''lang''"
      and n = "''Black Lotus''" and e = "\<lparr>world = (), trace = []\<rparr>"
      and sub_key = "Some ''usd''"]
    get_value_lookup [where kvs = "[(''prices'', PyDict [(''usd'', PyStr ''1.23'')]), (''lang'', PyNone)]"
      and key = "''prices''" and sub = "[(''usd'', PyStr ''1.23'')]" and sk = "''eur''"
      and n = "''Black Lotus''" and e = "\<lparr>world = (), trace = []\<rparr>"]
  by simp


section \<open>Construction when the fetch fails\<close>

text \<open>
  C2, as stated, at a collaborator that raises \<open>KeyboardInterrupt\<close>: the class does not
  derive from \<open>Exception\<close>, \<open>except Exception\<close> does not catch it, and it leaves
  \<open>__init__\<close>.
\<close>

theorem Card_init_KeyboardInterrupt_counterexample:
  "fst (scripted_fetch (get_base_scryfall_url ''Black Lotus'') [Inl (NonException ''KeyboardInterrupt'')])
     = Inl (NonException ''KeyboardInterrupt'')
   \<and> fst (Card_init scripted_fetch ''Black Lotus''
            \<lparr>world = [Inl (NonException ''KeyboardInterrupt'')], trace = []\<rparr>)
     = Inl (NonException ''KeyboardInterrupt'')"
  by (simp add: Card_init_def set_base_scryfall_response_def call_fetch_json_def scripted_fetch_def)

text \<open>
  C2, amended. For every name, when the collaborator raises an exception that is an
  instance of \<open>Exception\<close>, \<open>Card(n)\<close> returns a Card: its name is \<open>n\<close>, its
  \<open>scryfall_response\<close> is \<open>None\<close>, each of \<open>dollar_min_price\<close>, \<open>euro_min_price\<close>
  and \<open>online_min_price\<close> is \<open>None\<close>, and the only effects are the one call of the
  collaborator and the printed line with the text of the exception.
\<close>

theorem Card_init_swallows_Exception:
  assumes "fetch_json (get_base_scryfall_url n) (world e) = (Inl ex, w')"
    and "isinstance_Exception ex"
  shows "\<exists>c e'. Card_init fetch_json n e = (Inr c, e')
           \<and> name c = n \<and> scryfall_response c = PyNone
           \<and> (\<forall>e2. fst (dollar_min_price c e2) = Inr PyNone
                 \<and> fst (euro_min_price c e2) = Inr PyNone
                 \<and> fst (online_min_price c e2) = Inr PyNone)
           \<and> trace e' = trace e @ [FetchJson (get_base_scryfall_url n),
                 Print (''An error occurred while fetching Scryfall response: '' @ str_exn ex)]"
proof -
  let ?c = "\<lparr>name = n, scryfall_response = PyNone\<rparr>"
  let ?e' = "e\<lparr>world := w',
             trace := trace e @ [FetchJson (get_base_scryfall_url n),
               Print (''An error occurred while fetching Scryfall response: '' @ str_exn ex)]\<rparr>"
  have prices: "fst (dollar_min_price ?c e2) = Inr PyNone
      \<and> fst (euro_min_price ?c e2) = Inr PyNone
      \<and> fst (online_min_price ?c e2) = Inr PyNone" for e2
    by (simp add: dollar_min_price_def euro_min_price_def online_min_price_def
          get_value_from_base_scryfall_response_def)
  have init: "Card_init fetch_json n e = (Inr ?c, ?e')"
    using assms by (rule Card_init_caught)
  show ?thesis
  proof (intro exI conjI allI)
    show "Card_init fetch_json n e = (Inr ?c, ?e')"
      by (rule init)
  qed (simp_all add: prices)
qed

theorem Card_init_swallows_Exception_witness:
  "scripted_fetch (get_base_scryfall_url ''Black Lotus'') [Inl (OtherException ''404 Not Found'')]
     = (Inl (OtherException ''404 Not Found''), [])
   \<and> isinstance_Exception (OtherException ''404 Not Found'')
   \<and> (\<exists>c e'. Card_init scripted_fetch ''Black Lotus''
                 \<lparr>world = [Inl (OtherException ''404 Not Found'')], trace = []\<rparr> = (Inr c, e')
           \<and> name c = ''Black Lotus'' \<and> scryfall_response c = PyNone
           \<and> (\<forall>e2::(exn + pyval) list env. fst (dollar_min_price c e2) = Inr PyNone
                 \<and> fst (euro_min_price c e2) = Inr PyNone
                 \<and> fst (online_min_price c e2) = Inr PyNone)
           \<and> trace e' = [FetchJson ''https://api.scryfall.com/cards/named?exact=Black Lotus'',
                 Print ''An error occurred while fetching Scryfall response: 404 Not Found''])"
proof -
  have f: "scripted_fetch (get_base_scryfall_url ''Black Lotus'')
             (world \<lparr>world = [Inl (OtherException ''404 Not Found'')], trace = []\<rparr>)
           = (Inl (OtherException ''404 Not Found''), [])"
    by (simp add: scripted_fetch_def)
  have i: "isinstance_Exception (OtherException ''404 Not Found'')"
    by simp
  from Card_init_swallows_Exception [of scripted_fetch _ _ _ _, OF f i] f i show ?thesis
    by (simp add: get_base_scryfall_url_eq)
qed


section \<open>URL construction\<close>

text \<open>
  C3. \<open>get_base_scryfall_url\<close> is a function of the name alone, and its value is the
  fixed prefix \<open>https://api.scryfall.com/cards/named?exact=\<close> followed by the name,
  character for character: nothing of the name is escaped, so dropping the 43 characters
  of the prefix gives the name back.
\<close>

theorem get_base_scryfall_url_verbatim:
  "get_base_scryfall_url n = ''https://api.scryfall.com/cards/named?exact='' @ n
   \<and> drop 43 (get_base_scryfall_url n) = n
   \<and> length (get_base_scryfall_url n) = 43 + length n"
  by (simp add: get_base_scryfall_url_def format_str_def)


section \<open>Calls of the collaborator\<close>

text \<open>
  C4. For every name \<open>n\<close>, \<open>Card(n)\<close> applies the collaborator exactly once, to the URL
  \<open>https://api.scryfall.com/cards/named?exact=\<close> followed by \<open>n\<close>: the world afterwards
  is the world that one call leaves, the Card or the exception that comes out is decided
  by the answer of that call, a collaborator that records its own calls has recorded one
  more, with this URL, and the trace has one more call, with this URL. The field lookup,
  the three price properties and \<open>repr\<close> leave the world and the trace as they found
  them: none of them calls the collaborator.
\<close>

theorem fetch_json_called_once:
  "world (snd (Card_init fetch_json n e))
     = snd (fetch_json (''https://api.scryfall.com/cards/named?exact='' @ n) (world e))
   \<and> fst (Card_init fetch_json n e) =
       (case fst (fetch_json (''https://api.scryfall.com/cards/named?exact='' @ n) (world e)) of
          Inr v \<Rightarrow> Inr \<lparr>name = n, scryfall_response = v\<rparr>
        | Inl ex \<Rightarrow>
            if isinstance_Exception ex then Inr \<lparr>name = n, scryfall_response = PyNone\<rparr>
            else Inl ex)
   \<and> snd (world (snd (Card_init (recording fetch_json) n \<lparr>world = (w, seen), trace = t\<rparr>)))
       = seen @ [''https://api.scryfall.com/cards/named?exact='' @ n]
   \<and> fetch_urls (trace (snd (Card_init fetch_json n e)))
       = fetch_urls (trace e) @ [''https://api.scryfall.com/cards/named?exact='' @ n]
   \<and> snd (snd (get_value_from_base_scryfall_response c key sub_key e1)) = e1
   \<and> snd (snd (dollar_min_price c e1)) = e1
   \<and> snd (snd (euro_min_price c e1)) = e1
   \<and> snd (snd (online_min_price c e1)) = e1
   \<and> snd (snd (Card_repr c e1)) = e1
   \<and> trace (snd (snd (run_read op c e1))) = trace e1
   \<and> world (snd (snd (run_read op c e1))) = world e1"
proof -
  have seen: "snd (world (snd (Card_init (recording fetch_json) n \<lparr>world = (w, seen), trace = t\<rparr>)))
      = seen @ [get_base_scryfall_url n]"
    by (simp add: Card_init_world recording_seen)
  show ?thesis
    using Card_init_world [of fetch_json n e] Card_init_result [of fetch_json n e]
      Card_init_fetch_urls [of fetch_json n e] seen
    by (simp add: get_base_scryfall_url_eq get_value_frame run_read_frame
          dollar_min_price_def euro_min_price_def online_min_price_def Card_repr_def)
qed


section \<open>Price properties\<close>

text \<open>
  C5. \<open>dollar_min_price\<close>, \<open>euro_min_price\<close> and \<open>online_min_price\<close> are the field
  lookup at \<open>prices\<close> with the sub-key \<open>usd\<close>, \<open>eur\<close> and \<open>tix\<close>; when the document has
  a mapping at \<open>prices\<close> and that mapping has the code, the property is the stored value
  itself, whatever it is; and when the collaborator returns a mapping whose \<open>prices\<close> is
  \<open>{"usd": "1.23"}\<close>, the Card made from it has \<open>"1.23"\<close> for the dollar price and
  \<open>None\<close> for the other two.
\<close>

theorem price_projections:
  "dollar_min_price c e = get_value_from_base_scryfall_response c ''prices'' (Some ''usd'') e
   \<and> euro_min_price c e = get_value_from_base_scryfall_response c ''prices'' (Some ''eur'') e
   \<and> online_min_price c e = get_value_from_base_scryfall_response c ''prices'' (Some ''tix'') e
   \<and> (map_of kvs ''prices'' = Some (PyDict ps) \<and> map_of ps ''usd'' = Some usd \<longrightarrow>
        fst (dollar_min_price \<lparr>name = n, scryfall_response = PyDict kvs\<rparr> e) = Inr usd)
   \<and> (map_of kvs ''prices'' = Some (PyDict ps) \<and> map_of ps ''eur'' = Some eur \<longrightarrow>
        fst (euro_min_price \<lparr>name = n, scryfall_response = PyDict kvs\<rparr> e) = Inr eur)
   \<and> (map_of kvs ''prices'' = Some (PyDict ps) \<and> map_of ps ''tix'' = Some tix \<longrightarrow>
        fst (online_min_price \<lparr>name = n, scryfall_response = PyDict kvs\<rparr> e) = Inr tix)
   \<and> (fetch_json (get_base_scryfall_url n) (world e) = (Inr (PyDict kvs), w')
        \<and> map_of kvs ''prices'' = Some (PyDict [(''usd'', PyStr ''1.23'')]) \<longrightarrow>
        (\<exists>card e'. Card_init fetch_json n e = (Inr card, e')
           \<and> fst (dollar_min_price card e') = Inr (PyStr ''1.23'')
           \<and> fst (euro_min_price card e') = Inr PyNone
           \<and> fst (online_min_price card e') = Inr PyNone))"
proof -
  have present: "xs \<noteq> []" if "map_of xs k = Some x" for xs :: "(string \<times> pyval) list" and k x
    using that by auto
  have raw: "fst (get_value_from_base_scryfall_response
                    \<lparr>name = n, scryfall_response = PyDict kvs\<rparr> ''prices'' (Some code) e) = Inr v"
    if "map_of kvs ''prices'' = Some (PyDict ps)" and "map_of ps code = Some v" and "code \<noteq> []"
    for code v
    using that present [of kvs] present [of ps]
    by (simp add: get_value_from_base_scryfall_response_def)
  have end_to_end: "\<exists>card e'. Card_init fetch_json n e = (Inr card, e')
           \<and> fst (dollar_min_price card e') = Inr (PyStr ''1.23'')
           \<and> fst (euro_min_price card e') = Inr PyNone
           \<and> fst (online_min_price card e') = Inr PyNone"
    if call: "fetch_json (get_base_scryfall_url n) (world e) = (Inr (PyDict kvs), w')"
      and prices: "map_of kvs ''prices'' = Some (PyDict [(''usd'', PyStr ''1.23'')])"
  proof -
    have "kvs \<noteq> []"
      using prices by (rule present)
    with prices show ?thesis
      by (simp add: Card_init_value [of fetch_json n e "PyDict kvs" w', OF call]
            dollar_min_price_def euro_min_price_def online_min_price_def
            get_value_from_base_scryfall_response_def)
  qed
  show ?thesis
    using raw [of "''usd''" usd] raw [of "''eur''" eur] raw [of "''tix''" tix] end_to_end
    by (simp add: dollar_min_price_def euro_min_price_def online_min_price_def)
qed

theorem price_projections_witness:
  "map_of [(''name'', PyStr ''Black Lotus''),
           (''prices'', PyDict [(''usd'', PyStr ''50000.00''), (''eur'', PyNone), (''tix'', PyStr ''0.02'')])]
     ''prices'' = Some (PyDict [(''usd'', PyStr ''50000.00''), (''eur'', PyNone), (''tix'', PyStr ''0.02'')])
   \<and> fst (dollar_min_price
        \<lparr>name = ''Black Lotus'',
         scryfall_response = PyDict [(''name'', PyStr ''Black Lotus''),
           (''prices'', PyDict [(''usd'', PyStr ''50000.00''), (''eur'', PyNone), (''tix'', PyStr ''0.02'')])]\<rparr>
        \<lparr>world = (), trace = []\<rparr>) = Inr (PyStr ''50000.00'')
   \<and> fst (euro_min_price
        \<lparr>name = ''Black Lotus'',
         scryfall_response = PyDict [(''name'', PyStr ''Black Lotus''),
           (''prices'', PyDict [(''usd'', PyStr ''50000.00''), (''eur'', PyNone), (''tix'', PyStr ''0.02'')])]\<rparr>
        \<lparr>world = (), trace = []\<rparr>) = Inr PyNone
   \<and> fst (online_min_price
        \<lparr>name = ''Black Lotus'',
         scryfall_response = PyDict [(''name'', PyStr ''Black Lotus''),
           (''prices'', PyDict [(''usd'', PyStr ''50000.00''), (''eur'', PyNone), (''tix'', PyStr ''0.02'')])]\<rparr>
        \<lparr>world = (), trace = []\<rparr>) = Inr (PyStr ''0.02'')
   \<and> scripted_fetch (get_base_scryfall_url ''Black Lotus'')
        [Inr (PyDict [(''name'', PyStr ''Black Lotus''), (''prices'', PyDict [(''usd'', PyStr ''1.23'')])])]
       = (Inr (PyDict [(''name'', PyStr ''Black Lotus''), (''prices'', PyDict [(''usd'', PyStr ''1.23'')])]), [])
   \<and> (\<exists>card e'.
         Card_init scripted_fetch ''Black Lotus''
           \<lparr>world = [Inr (PyDict [(''name'', PyStr ''Black Lotus''),
                                   (''prices'', PyDict [(''usd'', PyStr ''1.23'')])])],
            trace = []\<rparr> = (Inr card, e')
         \<and> fst (dollar_min_price card e') = Inr (PyStr ''1.23'')
         \<and> fst (euro_min_price card e') = Inr PyNone
         \<and> fst (online_min_price card e') = Inr PyNone)"
proof -
  let ?ps = "[(''usd'', PyStr ''50000.00''), (''eur'', PyNone), (''tix'', PyStr ''0.02'')]"
  let ?lotus = "[(''name'', PyStr ''Black Lotus''), (''prices'', PyDict ?ps)]"
  let ?doc = "[(''name'', PyStr ''Black Lotus''), (''prices'', PyDict [(''usd'', PyStr ''1.23'')])]"
  let ?start = "\<lparr>world = [Inr (PyDict ?doc)], trace = []\<rparr>"
  have call: "scripted_fetch (get_base_scryfall_url ''Black Lotus'') (world ?start)
                = (Inr (PyDict ?doc), [])"
    by (simp add: scripted_fetch_def)
  note stored = price_projections [where kvs = ?lotus and ps = ?ps and usd = "PyStr ''50000.00''"
      and eur = PyNone and tix = "PyStr ''0.02''" and n = "''Black Lotus''"
      and e = "\<lparr>world = (), trace = []\<rparr>", THEN conjunct2, THEN conjunct2, THEN conjunct2]
  note fetched = price_projections [where kvs = ?doc and n = "''Black Lotus''" and e = ?start
      and fetch_json = scripted_fetch and w' = "[]",
      THEN conjunct2, THEN conjunct2, THEN conjunct2, THEN conjunct2, THEN conjunct2,
      THEN conjunct2]
  have usd: "fst (dollar_min_price \<lparr>name = ''Black Lotus'', scryfall_response = PyDict ?lotus\<rparr>
                \<lparr>world = (), trace = []\<rparr>) = Inr (PyStr ''50000.00'')"
    using stored [THEN conjunct1] by simp
  have eur: "fst (euro_min_price \<lparr>name = ''Black Lotus'', scryfall_response = PyDict ?lotus\<rparr>
                \<lparr>world = (), trace = []\<rparr>) = Inr PyNone"
    using stored [THEN conjunct2, THEN conjunct1] by simp
  have tix: "fst (online_min_price \<lparr>name = ''Black Lotus'', scryfall_response = PyDict ?lotus\<rparr>
                \<lparr>world = (), trace = []\<rparr>) = Inr (PyStr ''0.02'')"
    using stored [THEN conjunct2, THEN conjunct2, THEN conjunct1] by simp
  have made: "\<exists>card e'. Card_init scripted_fetch ''Black Lotus'' ?start = (Inr card, e')
         \<and> fst (dollar_min_price card e') = Inr (PyStr ''1.23'')
         \<and> fst (euro_min_price card e') = Inr PyNone
         \<and> fst (online_min_price card e') = Inr PyNone"
    using fetched call by simp
  from usd eur tix made call show ?thesis
    by simp
qed


section \<open>The document of a constructed Card\<close>

text \<open>
  C6, as stated, after a second call of \<open>set_base_scryfall_response\<close>, a public method
  of the class. The collaborator answers the construction of \<open>Card("Black Lotus")\<close> with
  one document and the later call with another: the Card then holds the second document,
  which is neither \<open>None\<close> nor what the fetch at construction returned.
\<close>

theorem document_refetched_counterexample:
  "reachable scripted_fetch ''Black Lotus''
     \<lparr>world = [Inr (PyDict [(''prices'', PyDict [(''usd'', PyStr ''1.00'')])]),
               Inr (PyDict [(''prices'', PyDict [(''usd'', PyStr ''2.00'')])])],
      trace = []\<rparr>
     [SetBaseScryfallResponse]
     \<lparr>name = ''Black Lotus'',
      scryfall_response = PyDict [(''prices'', PyDict [(''usd'', PyStr ''2.00'')])]\<rparr>
     \<lparr>world = [],
      trace = [FetchJson ''https://api.scryfall.com/cards/named?exact=Black Lotus'',
               FetchJson ''https://api.scryfall.com/cards/named?exact=Black Lotus'']\<rparr>
   \<and> fst (scripted_fetch (get_base_scryfall_url ''Black Lotus'')
            [Inr (PyDict [(''prices'', PyDict [(''usd'', PyStr ''1.00'')])]),
             Inr (PyDict [(''prices'', PyDict [(''usd'', PyStr ''2.00'')])])])
       = Inr (PyDict [(''prices'', PyDict [(''usd'', PyStr ''1.00'')])])
   \<and> PyDict [(''prices'', PyDict [(''usd'', PyStr ''2.00'')])] \<noteq> PyNone
   \<and> PyDict [(''prices'', PyDict [(''usd'', PyStr ''2.00'')])]
       \<noteq> PyDict [(''prices'', PyDict [(''usd'', PyStr ''1.00'')])]"
proof -
  let ?d1 = "PyDict [(''prices'', PyDict [(''usd'', PyStr ''1.00'')])]"
  let ?d2 = "PyDict [(''prices'', PyDict [(''usd'', PyStr ''2.00'')])]"
  let ?url = "''https://api.scryfall.com/cards/named?exact=Black Lotus''"
  let ?start = "\<lparr>world = [Inr ?d1, Inr ?d2], trace = []\<rparr>"
  let ?made = "\<lparr>name = ''Black Lotus'', scryfall_response = ?d1\<rparr>"
  let ?mid = "\<lparr>world = [Inr ?d2], trace = [FetchJson ?url]\<rparr>"
  let ?again = "\<lparr>name = ''Black Lotus'', scryfall_response = ?d2\<rparr>"
  let ?final = "\<lparr>world = ([] :: (exn + pyval) list), trace = [FetchJson ?url, FetchJson ?url]\<rparr>"
  have made: "reachable scripted_fetch ''Black Lotus'' ?start [] ?made ?mid"
    by (rule reachable.constructed)
       (simp add: Card_init_def set_base_scryfall_response_def call_fetch_json_def
          scripted_fetch_def get_base_scryfall_url_eq)
  have again: "run_op scripted_fetch SetBaseScryfallResponse ?made ?mid = (Inr PyNone, ?again, ?final)"
    by (simp add: run_op_def set_base_scryfall_response_def call_fetch_json_def
          scripted_fetch_def get_base_scryfall_url_eq)
  have "reachable scripted_fetch ''Black Lotus'' ?start ([] @ [SetBaseScryfallResponse]) ?again ?final"
    using made again by (rule reachable.operated)
  then show ?thesis
    by (simp add: scripted_fetch_def)
qed

text \<open>
  C6, amended. In every state a Card made by \<open>Card(n)\<close> reaches through the methods of
  the class, its name is \<open>n\<close> and its \<open>scryfall_response\<close> is \<open>None\<close> or the whole value
  that one call of the collaborator for this name returned. While
  \<open>set_base_scryfall_response\<close> has not been called again, it is \<open>None\<close> when the fetch at
  construction raised and otherwise exactly the value that fetch returned. The reading
  operations and \<open>get_base_scryfall_url\<close> leave the Card as it is; a later call of
  \<open>set_base_scryfall_response\<close> replaces the document by the whole value its fetch returns
  and leaves the Card as it is when that fetch raises.
\<close>

theorem document_invariant:
  assumes "reachable fetch_json n e0 ops c e"
  shows "name c = n
     \<and> (scryfall_response c = PyNone
          \<or> (\<exists>w w'. fetch_json (get_base_scryfall_url n) w = (Inr (scryfall_response c), w')))
     \<and> (SetBaseScryfallResponse \<notin> set ops \<longrightarrow>
          scryfall_response c =
            (case fst (fetch_json (get_base_scryfall_url n) (world e0)) of
               Inl ex \<Rightarrow> PyNone
             | Inr d \<Rightarrow> d))
     \<and> fst (snd (run_op fetch_json (Read r) c e)) = c
     \<and> fst (snd (run_op fetch_json (GetBaseScryfallUrl m) c e)) = c
     \<and> fst (snd (run_op fetch_json SetBaseScryfallResponse c e)) =
          (case fst (fetch_json (get_base_scryfall_url n) (world e)) of
             Inr d \<Rightarrow> c\<lparr>scryfall_response := d\<rparr>
           | Inl ex \<Rightarrow> c)"
proof -
  have inv: "name c = n
     \<and> (scryfall_response c = PyNone
          \<or> (\<exists>w w'. fetch_json (get_base_scryfall_url n) w = (Inr (scryfall_response c), w')))
     \<and> (SetBaseScryfallResponse \<notin> set ops \<longrightarrow>
          scryfall_response c =
            (case fst (fetch_json (get_base_scryfall_url n) (world e0)) of
               Inl ex \<Rightarrow> PyNone
             | Inr d \<Rightarrow> d))"
    using assms
  proof (induction rule: reachable.induct)
    case (constructed c e)
    obtain a w' where call: "fetch_json (get_base_scryfall_url n) (world e0) = (a, w')"
      by (cases "fetch_json (get_base_scryfall_url n) (world e0)")
    from constructed have "fst (Card_init fetch_json n e0) = Inr c"
      by simp
    with call show ?case
      by (cases a) (auto simp: Card_init_result split: if_splits)
  next
    case (operated ops c e op r c' e')
    show ?case
    proof (cases "op = SetBaseScryfallResponse")
      case False
      with operated.hyps(2) run_op_keeps_document [of op fetch_json c e] have "c' = c"
        by simp
      with operated.IH False show ?thesis
        by simp
    next
      case True
      obtain a w' where call: "fetch_json (get_base_scryfall_url (name c)) (world e) = (a, w')"
        by (cases "fetch_json (get_base_scryfall_url (name c)) (world e)")
      from operated.hyps(2) True have "c' = fst (snd (run_op fetch_json SetBaseScryfallResponse c e))"
        by simp
      with call operated.IH True show ?thesis
        by (cases a) (auto simp: refetch_card)
    qed
  next
    case (elsewhere ops c e e')
    then show ?case
      by simp
  qed
  then have "name c = n"
    by simp
  with inv show ?thesis
    by (simp add: refetch_card run_op_keeps_document)
qed

theorem document_invariant_witness:
  "reachable scripted_fetch ''Black Lotus''
     \<lparr>world = [Inr (PyDict [(''prices'', PyDict [(''usd'', PyStr ''50000.00'')])])], trace = []\<rparr>
     [Read DollarMinPrice]
     \<lparr>name = ''Black Lotus'',
      scryfall_response = PyDict [(''prices'', PyDict [(''usd'', PyStr ''50000.00'')])]\<rparr>
     \<lparr>world = [], trace = [FetchJson ''https://api.scryfall.com/cards/named?exact=Black Lotus'']\<rparr>
   \<and> SetBaseScryfallResponse \<notin> set [Read DollarMinPrice]
   \<and> scryfall_response
        \<lparr>name = ''Black Lotus'',
         scryfall_response = PyDict [(''prices'', PyDict [(''usd'', PyStr ''50000.00'')])]\<rparr>
       = (case fst (scripted_fetch (get_base_scryfall_url ''Black Lotus'')
                 [Inr (PyDict [(''prices'', PyDict [(''usd'', PyStr ''50000.00'')])])]) of
            Inl ex \<Rightarrow> PyNone
          | Inr d \<Rightarrow> d)
   \<and> fst (snd (run_op scripted_fetch SetBaseScryfallResponse
        \<lparr>name = ''Black Lotus'',
         scryfall_response = PyDict [(''prices'', PyDict [(''usd'', PyStr ''50000.00'')])]\<rparr>
        \<lparr>world = [], trace = [FetchJson ''https://api.scryfall.com/cards/named?exact=Black Lotus'']\<rparr>))
       = \<lparr>name = ''Black Lotus'',
          scryfall_response = PyDict [(''prices'', PyDict [(''usd'', PyStr ''50000.00'')])]\<rparr>"
proof -
  let ?doc = "PyDict [(''prices'', PyDict [(''usd'', PyStr ''50000.00'')])]"
  let ?start = "\<lparr>world = [Inr ?doc], trace = []\<rparr>"
  let ?c = "\<lparr>name = ''Black Lotus'', scryfall_response = ?doc\<rparr>"
  let ?after = "\<lparr>world = ([] :: (exn + pyval) list),
                 trace = [FetchJson ''https://api.scryfall.com/cards/named?exact=Black Lotus'']\<rparr>"
  have made: "reachable scripted_fetch ''Black Lotus'' ?start [] ?c ?after"
    by (rule reachable.constructed)
       (simp add: Card_init_def set_base_scryfall_response_def call_fetch_json_def
          scripted_fetch_def get_base_scryfall_url_eq)
  have read: "run_op scripted_fetch (Read DollarMinPrice) ?c ?after = (Inr (PyStr ''50000.00''), ?c, ?after)"
    by (simp add: run_op_def run_read_def dollar_min_price_def
          get_value_from_base_scryfall_response_def)
  have "reachable scripted_fetch ''Black Lotus'' ?start ([] @ [Read DollarMinPrice]) ?c ?after"
    using made read by (rule reachable.operated)
  then have reached: "reachable scripted_fetch ''Black Lotus'' ?start [Read DollarMinPrice] ?c ?after"
    by simp
  have fails: "fst (scripted_fetch (get_base_scryfall_url ''Black Lotus'') (world ?after))
                 = Inl (OtherException ''no answer left'')"
    by (simp add: scripted_fetch_def)
  from reached document_invariant [OF reached] fails show ?thesis
    by simp
qed

text \<open>
  C7. The field lookup with any key and sub-key, each of the three price properties and
  \<open>repr\<close> return the Card as they found it: \<open>name\<close> and \<open>scryfall_response\<close> are
  unchanged.
\<close>

theorem operations_read_only:
  "fst (snd (get_value_from_base_scryfall_response self key sub_key e)) = self
   \<and> fst (snd (dollar_min_price self e)) = self
   \<and> fst (snd (euro_min_price self e)) = self
   \<and> fst (snd (online_min_price self e)) = self
   \<and> fst (snd (Card_repr self e)) = self
   \<and> name (fst (snd (run_read op self e))) = name self
   \<and> scryfall_response (fst (snd (run_read op self e))) = scryfall_response self"
  by (simp add: dollar_min_price_def euro_min_price_def online_min_price_def Card_repr_def
        get_value_frame run_read_frame)


section \<open>Two Cards of one name\<close>

text \<open>
  C8. When the collaborator answers the first call for \<open>n\<close> with one document and the
  next with another, the first \<open>Card(n)\<close> holds the first document and the second,
  constructed in the world the first construction left, holds the second. What the field
  lookup and the price properties return for a Card is fixed by its document alone,
  whatever the name and the state of the world; and it is the value stored in that Card's
  own document: a key present in both documents gives each Card its own value, each price
  property gives each Card its own price, and the two results are equal exactly when the
  two stored values are.
\<close>

theorem instances_independent:
  fixes fetch_json :: "'w fetcher" and e :: "'w env" and e' :: "'w env"
  assumes "fetch_json (get_base_scryfall_url n) (world e0) = (Inr doc_a, w_a)"
    and "fetch_json (get_base_scryfall_url n) w_a = (Inr doc_b, w_b)"
  shows "fst (Card_init fetch_json n e0) = Inr \<lparr>name = n, scryfall_response = doc_a\<rparr>
     \<and> fst (Card_init fetch_json n (snd (Card_init fetch_json n e0)))
         = Inr \<lparr>name = n, scryfall_response = doc_b\<rparr>
     \<and> fst (get_value_from_base_scryfall_response \<lparr>name = n, scryfall_response = doc_a\<rparr> key sub_key e)
         = fst (get_value_from_base_scryfall_response \<lparr>name = m, scryfall_response = doc_a\<rparr> key sub_key e')
     \<and> fst (get_value_from_base_scryfall_response \<lparr>name = n, scryfall_response = doc_b\<rparr> key sub_key e)
         = fst (get_value_from_base_scryfall_response \<lparr>name = m, scryfall_response = doc_b\<rparr> key sub_key e')
     \<and> fst (dollar_min_price \<lparr>name = n, scryfall_response = doc_a\<rparr> e)
         = fst (dollar_min_price \<lparr>name = m, scryfall_response = doc_a\<rparr> e')
     \<and> fst (euro_min_price \<lparr>name = n, scryfall_response = doc_a\<rparr> e)
         = fst (euro_min_price \<lparr>name = m, scryfall_response = doc_a\<rparr> e')
     \<and> fst (online_min_price \<lparr>name = n, scryfall_response = doc_a\<rparr> e)
         = fst (online_min_price \<lparr>name = m, scryfall_response = doc_a\<rparr> e')
     \<and> fst (dollar_min_price \<lparr>name = n, scryfall_response = doc_b\<rparr> e)
         = fst (dollar_min_price \<lparr>name = m, scryfall_response = doc_b\<rparr> e')
     \<and> fst (euro_min_price \<lparr>name = n, scryfall_response = doc_b\<rparr> e)
         = fst (euro_min_price \<lparr>name = m, scryfall_response = doc_b\<rparr> e')
     \<and> fst (online_min_price \<lparr>name = n, scryfall_response = doc_b\<rparr> e)
         = fst (online_min_price \<lparr>name = m, scryfall_response = doc_b\<rparr> e')
     \<and> (doc_a = PyDict kvs_a \<and> doc_b = PyDict kvs_b
          \<and> map_of kvs_a key = Some v_a \<and> map_of kvs_b key = Some v_b \<longrightarrow>
          fst (get_value_from_base_scryfall_response \<lparr>name = n, scryfall_response = doc_a\<rparr> key None e)
            = Inr v_a
          \<and> fst (get_value_from_base_scryfall_response \<lparr>name = n, scryfall_response = doc_b\<rparr> key None e')
            = Inr v_b
          \<and> (fst (get_value_from_base_scryfall_response
                    \<lparr>name = n, scryfall_response = doc_a\<rparr> key None e)
               = fst (get_value_from_base_scryfall_response
                    \<lparr>name = n, scryfall_response = doc_b\<rparr> key None e'))
              = (v_a = v_b))
     \<and> (doc_a = PyDict kvs_a \<and> doc_b = PyDict kvs_b
          \<and> map_of kvs_a ''prices'' = Some (PyDict ps_a) \<and> map_of kvs_b ''prices'' = Some (PyDict ps_b)
          \<and> map_of ps_a ''usd'' = Some usd_a \<and> map_of ps_b ''usd'' = Some usd_b \<longrightarrow>
          fst (dollar_min_price \<lparr>name = n, scryfall_response = doc_a\<rparr> e) = Inr usd_a
          \<and> fst (dollar_min_price \<lparr>name = n, scryfall_response = doc_b\<rparr> e') = Inr usd_b
          \<and> (fst (dollar_min_price \<lparr>name = n, scryfall_response = doc_a\<rparr> e)
               = fst (dollar_min_price \<lparr>name = n, scryfall_response = doc_b\<rparr> e'))
              = (usd_a = usd_b))
     \<and> (doc_a = PyDict kvs_a \<and> doc_b = PyDict kvs_b
          \<and> map_of kvs_a ''prices'' = Some (PyDict ps_a) \<and> map_of kvs_b ''prices'' = Some (PyDict ps_b)
          \<and> map_of ps_a ''eur'' = Some eur_a \<and> map_of ps_b ''eur'' = Some eur_b \<longrightarrow>
          fst (euro_min_price \<lparr>name = n, scryfall_response = doc_a\<rparr> e) = Inr eur_a
          \<and> fst (euro_min_price \<lparr>name = n, scryfall_response = doc_b\<rparr> e') = Inr eur_b
          \<and> (fst (euro_min_price \<lparr>name = n, scryfall_response = doc_a\<rparr> e)
               = fst (euro_min_price \<lparr>name = n, scryfall_response = doc_b\<rparr> e'))
              = (eur_a = eur_b))
     \<and> (doc_a = PyDict kvs_a \<and> doc_b = PyDict kvs_b
          \<and> map_of kvs_a ''prices'' = Some (PyDict ps_a) \<and> map_of kvs_b ''prices'' = Some (PyDict ps_b)
          \<and> map_of ps_a ''tix'' = Some tix_a \<and> map_of ps_b ''tix'' = Some tix_b \<longrightarrow>
          fst (online_min_price \<lparr>name = n, scryfall_response = doc_a\<rparr> e) = Inr tix_a
          \<and> fst (online_min_price \<lparr>name = n, scryfall_response = doc_b\<rparr> e') = Inr tix_b
          \<and> (fst (online_min_price \<lparr>name = n, scryfall_response = doc_a\<rparr> e)
               = fst (online_min_price \<lparr>name = n, scryfall_response = doc_b\<rparr> e'))
              = (tix_a = tix_b))"
proof -
  let ?url = "get_base_scryfall_url n"
  let ?mid = "e0\<lparr>world := w_a, trace := trace e0 @ [FetchJson ?url]\<rparr>"
  have first: "Card_init fetch_json n e0 = (Inr \<lparr>name = n, scryfall_response = doc_a\<rparr>, ?mid)"
    using assms(1) by (rule Card_init_value)
  have "fetch_json ?url (world ?mid) = (Inr doc_b, w_b)"
    using assms(2) by simp
  then have second: "Card_init fetch_json n ?mid
      = (Inr \<lparr>name = n, scryfall_response = doc_b\<rparr>,
         ?mid\<lparr>world := w_b, trace := trace ?mid @ [FetchJson ?url]\<rparr>)"
    by (rule Card_init_value)
  have same: "fst (get_value_from_base_scryfall_response \<lparr>name = n, scryfall_response = d\<rparr> k sk e)
      = fst (get_value_from_base_scryfall_response \<lparr>name = m, scryfall_response = d\<rparr> k sk e')"
    for d k sk
    by (rule get_value_depends_on_document) simp
  have present: "xs \<noteq> []" if "map_of xs k = Some x" for xs :: "(string \<times> pyval) list" and k x
    using that by auto
  have top: "fst (get_value_from_base_scryfall_response
                    \<lparr>name = n, scryfall_response = PyDict kvs\<rparr> k None env) = Inr v"
    if "map_of kvs k = Some v" for kvs k v and env :: "'w env"
    using that present [of kvs]
    by (simp add: get_value_from_base_scryfall_response_def)
  have price: "fst (get_value_from_base_scryfall_response
                    \<lparr>name = n, scryfall_response = PyDict kvs\<rparr> ''prices'' (Some code) env) = Inr v"
    if "map_of kvs ''prices'' = Some (PyDict ps)" and "map_of ps code = Some v" and "code \<noteq> []"
    for kvs ps code v and env :: "'w env"
    using that present [of kvs] present [of ps]
    by (simp add: get_value_from_base_scryfall_response_def)
  have construction: "fst (Card_init fetch_json n e0) = Inr \<lparr>name = n, scryfall_response = doc_a\<rparr>
     \<and> fst (Card_init fetch_json n (snd (Card_init fetch_json n e0)))
         = Inr \<lparr>name = n, scryfall_response = doc_b\<rparr>"
    by (simp add: first second)
  show ?thesis
    unfolding dollar_min_price_def euro_min_price_def online_min_price_def
    by (intro conjI impI same)
       (simp_all add: construction top price)
qed

theorem instances_independent_witness:
  "scripted_fetch (get_base_scryfall_url ''Black Lotus'')
     [Inr (PyDict [(''prices'', PyDict [(''usd'', PyStr ''1.00''), (''eur'', PyStr ''0.90''), (''tix'', PyNone)])]),
      Inr (PyDict [(''prices'', PyDict [(''usd'', PyStr ''2.00''), (''eur'', PyStr ''0.90''), (''tix'', PyStr ''0.02'')])])]
     = (Inr (PyDict [(''prices'', PyDict [(''usd'', PyStr ''1.00''), (''eur'', PyStr ''0.90''), (''tix'', PyNone)])]),
        [Inr (PyDict [(''prices'', PyDict [(''usd'', PyStr ''2.00''), (''eur'', PyStr ''0.90''), (''tix'', PyStr ''0.02'')])])])
   \<and> fst (Card_init scripted_fetch ''Black Lotus''
           \<lparr>world = [Inr (PyDict [(''prices'', PyDict [(''usd'', PyStr ''1.00''), (''eur'', PyStr ''0.90''), (''tix'', PyNone)])]),
                     Inr (PyDict [(''prices'', PyDict [(''usd'', PyStr ''2.00''), (''eur'', PyStr ''0.90''), (''tix'', PyStr ''0.02'')])])],
            trace = []\<rparr>)
       = Inr \<lparr>name = ''Black Lotus'',
              scryfall_response = PyDict [(''prices'', PyDict [(''usd'', PyStr ''1.00''), (''eur'', PyStr ''0.90''), (''tix'', PyNone)])]\<rparr>
   \<and> fst (Card_init scripted_fetch ''Black Lotus''
           (snd (Card_init scripted_fetch ''Black Lotus''
              \<lparr>world = [Inr (PyDict [(''prices'', PyDict [(''usd'', PyStr ''1.00''), (''eur'', PyStr ''0.90''), (''tix'', PyNone)])]),
                        Inr (PyDict [(''prices'', PyDict [(''usd'', PyStr ''2.00''), (''eur'', PyStr ''0.90''), (''tix'', PyStr ''0.02'')])])],
               trace = []\<rparr>)))
       = Inr \<lparr>name = ''Black Lotus'',
              scryfall_response = PyDict [(''prices'', PyDict [(''usd'', PyStr ''2.00''), (''eur'', PyStr ''0.90''), (''tix'', PyStr ''0.02'')])]\<rparr>
   \<and> fst (dollar_min_price
           \<lparr>name = ''Black Lotus'',
            scryfall_response = PyDict [(''prices'', PyDict [(''usd'', PyStr ''1.00''), (''eur'', PyStr ''0.90''), (''tix'', PyNone)])]\<rparr>
           \<lparr>world = ([] :: (exn + pyval) list), trace = []\<rparr>) = Inr (PyStr ''1.00'')
   \<and> fst (dollar_min_price
           \<lparr>name = ''Black Lotus'',
            scryfall_response = PyDict [(''prices'', PyDict [(''usd'', PyStr ''2.00''), (''eur'', PyStr ''0.90''), (''tix'', PyStr ''0.02'')])]\<rparr>
           \<lparr>world = ([] :: (exn + pyval) list), trace = []\<rparr>) = Inr (PyStr ''2.00'')
   \<and> fst (dollar_min_price
           \<lparr>name = ''Black Lotus'',
            scryfall_response = PyDict [(''prices'', PyDict [(''usd'', PyStr ''1.00''), (''eur'', PyStr ''0.90''), (''tix'', PyNone)])]\<rparr>
           \<lparr>world = ([] :: (exn + pyval) list), trace = []\<rparr>)
       \<noteq> fst (dollar_min_price
           \<lparr>name = ''Black Lotus'',
            scryfall_response = PyDict [(''prices'', PyDict [(''usd'', PyStr ''2.00''), (''eur'', PyStr ''0.90''), (''tix'', PyStr ''0.02'')])]\<rparr>
           \<lparr>world = ([] :: (exn + pyval) list), trace = []\<rparr>)
   \<and> fst (euro_min_price
           \<lparr>name = ''Black Lotus'',
            scryfall_response = PyDict [(''prices'', PyDict [(''usd'', PyStr ''1.00''), (''eur'', PyStr ''0.90''), (''tix'', PyNone)])]\<rparr>
           \<lparr>world = ([] :: (exn + pyval) list), trace = []\<rparr>)
       = fst (euro_min_price
           \<lparr>name = ''Black Lotus'',
            scryfall_response = PyDict [(''prices'', PyDict [(''usd'', PyStr ''2.00''), (''eur'', PyStr ''0.90''), (''tix'', PyStr ''0.02'')])]\<rparr>
           \<lparr>world = ([] :: (exn + pyval) list), trace = []\<rparr>)
   \<and> fst (online_min_price
           \<lparr>name = ''Black Lotus'',
            scryfall_response = PyDict [(''prices'', PyDict [(''usd'', PyStr ''1.00''), (''eur'', PyStr ''0.90''), (''tix'', PyNone)])]\<rparr>
           \<lparr>world = ([] :: (exn + pyval) list), trace = []\<rparr>) = Inr PyNone
   \<and> fst (online_min_price
           \<lparr>name = ''Black Lotus'',
            scryfall_response = PyDict [(''prices'', PyDict [(''usd'', PyStr ''2.00''), (''eur'', PyStr ''0.90''), (''tix'', PyStr ''0.02'')])]\<rparr>
           \<lparr>world = ([] :: (exn + pyval) list), trace = []\<rparr>) = Inr (PyStr ''0.02'')"
proof -
  let ?pa = "[(''usd'', PyStr ''1.00''), (''eur'', PyStr ''0.90''), (''tix'', PyNone)]"
  let ?pb = "[(''usd'', PyStr ''2.00''), (''eur'', PyStr ''0.90''), (''tix'', PyStr ''0.02'')]"
  let ?ka = "[(''prices'', PyDict ?pa)]"
  let ?kb = "[(''prices'', PyDict ?pb)]"
  let ?start = "\<lparr>world = [Inr (PyDict ?ka), Inr (PyDict ?kb)], trace = []\<rparr>"
  let ?later = "\<lparr>world = ([] :: (exn + pyval) list), trace = []\<rparr>"
  have fa: "scripted_fetch (get_base_scryfall_url ''Black Lotus'') (world ?start)
              = (Inr (PyDict ?ka), [Inr (PyDict ?kb)])"
    by (simp add: scripted_fetch_def)
  have fb: "scripted_fetch (get_base_scryfall_url ''Black Lotus'') [Inr (PyDict ?kb)]
              = (Inr (PyDict ?kb), [])"
    by (simp add: scripted_fetch_def)
  note both = instances_independent [where fetch_json = scripted_fetch and n = "''Black Lotus''"
      and ?e0.0 = ?start and doc_a = "PyDict ?ka" and doc_b = "PyDict ?kb" and w_a = "[Inr (PyDict ?kb)]"
      and w_b = "[]" and kvs_a = ?ka and kvs_b = ?kb and ps_a = ?pa and ps_b = ?pb
      and usd_a = "PyStr ''1.00''" and usd_b = "PyStr ''2.00''"
      and eur_a = "PyStr ''0.90''" and eur_b = "PyStr ''0.90''"
      and tix_a = PyNone and tix_b = "PyStr ''0.02''"
      and e = ?later and e' = ?later and m = "''Black Lotus''", OF fa fb]
  note made = both [THEN conjunct1] both [THEN conjunct2, THEN conjunct1]
  note pinned = both [THEN conjunct2, THEN conjunct2, THEN conjunct2, THEN conjunct2,
      THEN conjunct2, THEN conjunct2, THEN conjunct2, THEN conjunct2, THEN conjunct2,
      THEN conjunct2, THEN conjunct2]
  have usd: "fst (dollar_min_price \<lparr>name = ''Black Lotus'', scryfall_response = PyDict ?ka\<rparr> ?later)
               = Inr (PyStr ''1.00'')
      \<and> fst (dollar_min_price \<lparr>name = ''Black Lotus'', scryfall_response = PyDict ?kb\<rparr> ?later)
               = Inr (PyStr ''2.00'')"
    using pinned [THEN conjunct1] by simp
  have eur: "fst (euro_min_price \<lparr>name = ''Black Lotus'', scryfall_response = PyDict ?ka\<rparr> ?later)
      = fst (euro_min_price \<lparr>name = ''Black Lotus'', scryfall_response = PyDict ?kb\<rparr> ?later)"
    using pinned [THEN conjunct2, THEN conjunct1] by simp
  have tix: "fst (online_min_price \<lparr>name = ''Black Lotus'', scryfall_response = PyDict ?ka\<rparr> ?later)
               = Inr PyNone
      \<and> fst (online_min_price \<lparr>name = ''Black Lotus'', scryfall_response = PyDict ?kb\<rparr> ?later)
               = Inr (PyStr ''0.02'')"
    using pinned [THEN conjunct2, THEN conjunct2] by simp
  from fa made usd eur tix show ?thesis
    by simp
qed


section \<open>Values that are false\<close>

text \<open>
  C9. When the document has the key and the value there is false (\<open>None\<close>, an empty
  mapping, zero, the empty str, ...), the field lookup with a sub-key returns that value
  itself: the sub-key is not looked up.
\<close>

theorem falsy_value_returned:
  assumes "map_of kvs key = Some v" and "\<not> truthy v"
  shows "fst (get_value_from_base_scryfall_response
                \<lparr>name = n, scryfall_response = PyDict kvs\<rparr> key (Some sk) e) = Inr v"
proof -
  from assms(1) have "kvs \<noteq> []"
    by auto
  with assms show ?thesis
    by (simp add: get_value_from_base_scryfall_response_def)
qed

theorem falsy_value_returned_witness:
  "\<not> truthy (PyDict []) \<and> \<not> truthy (PyInt 0) \<and> \<not> truthy (PyStr '''')
   \<and> fst (get_value_from_base_scryfall_response
        \<lparr>name = ''Black Lotus'',
         scryfall_response = PyDict [(''prices'', PyDict []), (''cmc'', PyInt 0), (''flavor'', PyStr '''')]\<rparr>
        ''prices'' (Some ''usd'') \<lparr>world = (), trace = []\<rparr>) = Inr (PyDict [])
   \<and> fst (get_value_from_base_scryfall_response
        \<lparr>name = ''Black Lotus'',
         scryfall_response = PyDict [(''prices'', PyDict []), (''cmc'', PyInt 0), (''flavor'', PyStr '''')]\<rparr>
        ''cmc'' (Some ''usd'') \<lparr>world = (), trace = []\<rparr>) = Inr (PyInt 0)
   \<and> fst (get_value_from_base_scryfall_response
        \<lparr>name = ''Black Lotus'',
         scryfall_response = PyDict [(''prices'', PyDict []), (''cmc'', PyInt 0), (''flavor'', PyStr '''')]\<rparr>
        ''flavor'' (Some ''usd'') \<lparr>world = (), trace = []\<rparr>) = Inr (PyStr '''')"
  using
    falsy_value_returned [where kvs = "[(''prices'', PyDict []), (''cmc'', PyInt 0), (''flavor'', PyStr '''')]"
      and key = "''prices''" and v = "PyDict []" and n = "''Black Lotus''" and sk = "''usd''"
      and e = "\<lparr>world = (), trace = []\<rparr>"]
    falsy_value_returned [where kvs = "[(''prices'', PyDict []), (''cmc'', PyInt 0), (''flavor'', PyStr '''')]"
      and key = "''cmc''" and v = "PyInt 0" and n = "''Black Lotus''" and sk = "''usd''"
      and e = "\<lparr>world = (), trace = []\<rparr>"]
    falsy_value_returned [where kvs = "[(''prices'', PyDict []), (''cmc'', PyInt 0), (''flavor'', PyStr '''')]"
      and key = "''flavor''" and v = "PyStr ''''" and n = "''Black Lotus''" and sk = "''usd''"
      and e = "\<lparr>world = (), trace = []\<rparr>"]
  by simp


text \<open>
  C10, at the document \<open>{"name": "Black Lotus"}\<close>, a mapping with string keys:
  \<open>get_value_from_base_scryfall_response("name", "usd")\<close> reaches \<open>data.get(sub_key)\<close>
  with \<open>data\<close> a non-empty str and raises \<open>AttributeError\<close>, where the docstring
  promises the value or \<open>None\<close>.
\<close>

theorem get_value_raises_on_str:
  "map_of [(''name'', PyStr ''Black Lotus'')] ''name'' = Some (PyStr ''Black Lotus'')
   \<and> fst (get_value_from_base_scryfall_response
        \<lparr>name = ''Black Lotus'', scryfall_response = PyDict [(''name'', PyStr ''Black Lotus'')]\<rparr>
        ''name'' (Some ''usd'') \<lparr>world = (), trace = []\<rparr>)
     = Inl (AttributeError (CHR 0x27 # ''str'' @ CHR 0x27 # '' object has no attribute '' @ CHR 0x27 # ''get'' @ [CHR 0x27]))"
  by (simp add: get_value_from_base_scryfall_response_def no_attribute_def)

end
